theory Spec2Isabelle
  imports Main "HOL-Library.AList"
begin

section \<open>JavaScript values\<close>

text \<open>
  The values that \<^verbatim>\<open>JSON.parse\<close> produces and that the handlers of
  \<^verbatim>\<open>src/server/websocket.ts\<close> read, build and hand to \<^verbatim>\<open>JSON.stringify\<close>.
  A number is represented by the string that \<^verbatim>\<open>Number.prototype.toString\<close> gives for it,
  which tells numbers apart as \<^verbatim>\<open>===\<close> does (both zeros are \<^verbatim>\<open>0\<close>; the infinities
  that an overflowing literal gives are \<^verbatim>\<open>Infinity\<close> and \<^verbatim>\<open>-Infinity\<close>); the handlers
  use nothing else of a number than its truthiness and this string. An object is the
  list of its own properties in enumeration order. \<open>JUndefined\<close> is the value of a
  property that is not there; \<^verbatim>\<open>JSON.parse\<close> itself never returns it.
\<close>

datatype js =
    JUndefined
  | JNull
  | JBool bool
  | JNum string
  | JStr string
  | JArr "js list"
  | JObj "(string \<times> js) list"

text \<open>What a \<^verbatim>\<open>catch\<close> clause can receive here.\<close>

datatype exn = SyntaxError | TypeError | Rejection js

text \<open>JavaScript truthiness, as used by \<^verbatim>\<open>!parsed.sessionId\<close>.\<close>

fun truthy :: "js \<Rightarrow> bool" where
  "truthy JUndefined = False"
| "truthy JNull = False"
| "truthy (JBool b) = b"
| "truthy (JNum n) = (n \<noteq> ''0'' \<and> n \<noteq> ''NaN'')"
| "truthy (JStr s) = (s \<noteq> [])"
| "truthy (JArr xs) = True"
| "truthy (JObj kvs) = True"

text \<open>
  Reading a property \<^verbatim>\<open>v.k\<close>. On \<^verbatim>\<open>null\<close> and \<^verbatim>\<open>undefined\<close> the read throws a
  TypeError (\<open>get_prop\<close>). The source reads only \<^verbatim>\<open>sessionId\<close>, \<^verbatim>\<open>type\<close>,
  \<^verbatim>\<open>content\<close> and \<^verbatim>\<open>channel\<close>, names that no primitive, array or prototype defines, so on
  anything but an object those reads give \<^verbatim>\<open>undefined\<close>.
\<close>

fun property :: "js \<Rightarrow> string \<Rightarrow> js" where
  "property (JObj kvs) k = (case map_of kvs k of Some v \<Rightarrow> v | None \<Rightarrow> JUndefined)"
| "property v k = JUndefined"

fun get_prop :: "js \<Rightarrow> string \<Rightarrow> exn + js" where
  "get_prop JUndefined k = Inl TypeError"
| "get_prop JNull k = Inl TypeError"
| "get_prop v k = Inr (property v k)"

text \<open>
  The own enumerable properties that an object spread \<^verbatim>\<open>{...v}\<close> copies. The source
  spreads \<^verbatim>\<open>parsed\<close> only after \<^verbatim>\<open>parsed.sessionId\<close> was found truthy, which only an
  object passes (lemma \<open>truthy_prop_is_object\<close> below).
\<close>

fun spread :: "js \<Rightarrow> (string \<times> js) list" where
  "spread (JObj kvs) = kvs"
| "spread v = []"

text \<open>
  The conversion to a string that a template literal applies to an interpolated value.
  An object made by \<^verbatim>\<open>JSON.parse\<close> inherits \<^verbatim>\<open>toString\<close> and \<^verbatim>\<open>valueOf\<close> from
  \<^verbatim>\<open>Object.prototype\<close> unless it has an own property of that name, whose value is then
  no function: with an own \<^verbatim>\<open>toString\<close> neither method yields a primitive (the inherited
  \<^verbatim>\<open>valueOf\<close> returns the object itself) and the conversion throws a TypeError. An
  array is joined with commas, \<^verbatim>\<open>null\<close> and \<^verbatim>\<open>undefined\<close> elements giving the empty
  string, the first element that throws ending the conversion.
\<close>

fun join :: "(exn + string) list \<Rightarrow> exn + string" where
  "join [] = Inr []"
| "join [r] = r"
| "join (r # rs) =
     (case r of
        Inl e \<Rightarrow> Inl e
      | Inr s \<Rightarrow> (case join rs of Inl e \<Rightarrow> Inl e | Inr t \<Rightarrow> Inr (s @ '','' @ t)))"

fun ToString :: "js \<Rightarrow> exn + string" where
  "ToString JUndefined = Inr ''undefined''"
| "ToString JNull = Inr ''null''"
| "ToString (JBool b) = Inr (if b then ''true'' else ''false'')"
| "ToString (JNum n) = Inr n"
| "ToString (JStr s) = Inr s"
| "ToString (JArr xs) =
     join (map (\<lambda>x. if x = JNull \<or> x = JUndefined then Inr [] else ToString x) xs)"
| "ToString (JObj kvs) =
     (if ''toString'' \<in> fst ` set kvs then Inl TypeError else Inr ''[object Object]'')"

section \<open>Numbers to strings\<close>

text \<open>
  \<^verbatim>\<open>Date.now()\<close> is an integer number of milliseconds; its \<^verbatim>\<open>toString()\<close> and its
  interpolation in a template literal are its decimal digits.
\<close>

definition digit :: "nat \<Rightarrow> char" where
  "digit d =
     (if d = 0 then CHR ''0'' else if d = 1 then CHR ''1'' else if d = 2 then CHR ''2''
      else if d = 3 then CHR ''3'' else if d = 4 then CHR ''4'' else if d = 5 then CHR ''5''
      else if d = 6 then CHR ''6'' else if d = 7 then CHR ''7'' else if d = 8 then CHR ''8''
      else CHR ''9'')"

function digits :: "nat \<Rightarrow> string" where
  "digits n = (if n < 10 then [digit n] else digits (n div 10) @ [digit (n mod 10)])"
  by pat_completeness auto
termination
  by (relation "measure id") auto

declare digits.simps [simp del]

definition toString :: "int \<Rightarrow> string" where
  "toString i = (if i < 0 then CHR ''-'' # digits (nat (- i)) else digits (nat i))"

section \<open>Sessions, sockets and the calls a handler makes\<close>

text \<open>A \<^verbatim>\<open>WebSocket\<close> object is known by its identity.\<close>

type_synonym sock = nat

record ClientSession =
  ws :: sock
  deviceId :: string
  sessionId :: string
  ipAddress :: string
  userId :: "string option"

text \<open>\<^verbatim>\<open>activeSessions\<close>, a \<^verbatim>\<open>Map<string, ClientSession>\<close>.\<close>

type_synonym registry = "string \<rightharpoonup> ClientSession"

text \<open>
  \<^verbatim>\<open>Map.has\<close> and \<^verbatim>\<open>Map.get\<close> at a key that is any JavaScript value: every key of
  \<^verbatim>\<open>activeSessions\<close> is a string, so only a string can be found.
\<close>

fun Map_has :: "registry \<Rightarrow> js \<Rightarrow> bool" where
  "Map_has reg (JStr s) = (reg s \<noteq> None)"
| "Map_has reg v = False"

fun Map_get :: "registry \<Rightarrow> js \<Rightarrow> ClientSession option" where
  "Map_get reg (JStr s) = reg s"
| "Map_get reg v = None"

text \<open>
  The part of the upgrade request that the connection handler reads:
  \<^verbatim>\<open>req.headers[...]\<close> and \<^verbatim>\<open>req.socket.remoteAddress\<close>, each a string or undefined.
\<close>

record request =
  headers :: "string \<rightharpoonup> string"
  remoteAddress :: "string option"

text \<open>
  The calls a handler makes on its collaborators, in the order it makes them.
  \<open>WsSend w v\<close> is \<^verbatim>\<open>w.send(JSON.stringify(v))\<close>, \<open>WsClose w code reason\<close> is
  \<^verbatim>\<open>w.close(code, reason)\<close>; \<open>GetChatHistory\<close> and \<open>SaveChatMessage\<close> are the calls
  into \<^verbatim>\<open>./storage\<close>, which return promises. \<open>UnhandledRejection\<close> is a rejected
  promise that no handler of the source receives, and \<open>ProcessExit\<close> the end of the
  server process with the given exit code. A call of \<^verbatim>\<open>send\<close> or \<^verbatim>\<open>close\<close> on a
  socket that completed its handshake returns normally, whatever the state of the socket.
\<close>

datatype action =
    ConsoleLog string "js list"
  | ConsoleError string exn
  | WsSend sock js
  | WsClose sock nat string
  | GetChatHistory string
  | SaveChatMessage string js
  | UnhandledRejection exn
  | ProcessExit nat

section \<open>The connection handler\<close>

text \<open>
  The \<^verbatim>\<open>'connection'\<close> event is emitted by the \<^verbatim>\<open>ws\<close> library, from its
  \<^verbatim>\<open>handleUpgrade\<close>, which first answers with status 400 every upgrade request whose
  \<^verbatim>\<open>Sec-WebSocket-Key\<close> header is missing, empty or does not match
  \<^verbatim>\<open>/^[+/0-9A-Za-z]{22}==$/\<close>. \<open>handshake_accepted\<close> is that guard: it holds of every
  request the connection handler receives.
\<close>

definition base64_char :: "char \<Rightarrow> bool" where
  "base64_char c \<longleftrightarrow>
     c \<in> set ''+/0123456789ABCDEFGHIJKLMNOPQRSTUVWXYZabcdefghijklmnopqrstuvwxyz''"

definition keyRegex_test :: "string \<Rightarrow> bool" where
  "keyRegex_test key \<longleftrightarrow>
     length key = 24 \<and> list_all base64_char (take 22 key) \<and> drop 22 key = ''==''"

definition handshake_accepted :: "request \<Rightarrow> bool" where
  "handshake_accepted req =
     (case headers req ''sec-websocket-key'' of
        None \<Rightarrow> False
      | Some key \<Rightarrow> key \<noteq> [] \<and> keyRegex_test key)"

text \<open>\<^verbatim>\<open>a || b\<close> where \<open>a\<close> is a string or undefined and \<open>b\<close> a string.\<close>

definition or_else :: "string option \<Rightarrow> string \<Rightarrow> string" where
  "or_else a b = (case a of None \<Rightarrow> b | Some s \<Rightarrow> if s \<noteq> [] then s else b)"

text \<open>
  Lines 25 to 37: the identity of a new connection. \<open>now_dev\<close> and \<open>now_sess\<close> are what
  the two calls of \<^verbatim>\<open>Date.now()\<close> return.
\<close>

definition new_session :: "sock \<Rightarrow> request \<Rightarrow> int \<Rightarrow> int \<Rightarrow> ClientSession" where
  "new_session w req now_dev now_sess =
     (let deviceId = or_else (headers req ''sec-websocket-key'')
                       (or_else (remoteAddress req) (toString now_dev));
          sessionId = deviceId @ ''-'' @ toString now_sess;
          ipAddress = or_else (remoteAddress req) ''unknown''
      in \<lparr>ws = w, deviceId = deviceId, sessionId = sessionId, ipAddress = ipAddress,
          userId = None\<rparr>)"

text \<open>
  Lines 23 to 64: the body of the \<^verbatim>\<open>'connection'\<close> callback up to the registration of
  the \<^verbatim>\<open>'message'\<close> and \<^verbatim>\<open>'close'\<close> listeners. It returns the session (whose fields are
  the variables the listeners close over), the registry after \<^verbatim>\<open>activeSessions.set\<close>,
  and the calls made.
\<close>

definition on_connection ::
  "sock \<Rightarrow> request \<Rightarrow> int \<Rightarrow> int \<Rightarrow> registry \<Rightarrow> ClientSession \<times> registry \<times> action list" where
  "on_connection w req now_dev now_sess reg =
     (let session = new_session w req now_dev now_sess
      in (session,
          reg(sessionId session \<mapsto> session),
          [ConsoleLog ''WebSocket client connected'' [],
           WsSend w (JObj [(''type'', JStr ''session_init''),
                           (''sessionId'', JStr (sessionId session)),
                           (''deviceId'', JStr (deviceId session)),
                           (''ipAddress'', JStr (ipAddress session))]),
           WsSend w (JObj [(''type'', JStr ''connection''),
                           (''deviceId'', JStr (deviceId session)),
                           (''message'', JStr ''Connected to Ecosense WebSocket Server'')]),
           GetChatHistory (deviceId session)]))"

text \<open>
  Lines 59 to 64: the promise of \<^verbatim>\<open>getChatHistory\<close> settles. The \<^verbatim>\<open>then\<close> callback
  runs when it is fulfilled. Nothing of the source receives a rejection: the promise
  that \<^verbatim>\<open>then\<close> returns is rejected with no handler, which Node (since version 15, by
  its default \<^verbatim>\<open>--unhandled-rejections=throw\<close>) raises as an uncaught exception, and the
  process exits with code 1.
\<close>

fun history_settled :: "sock \<Rightarrow> exn + js \<Rightarrow> action list" where
  "history_settled w (Inr history) =
     [WsSend w (JObj [(''type'', JStr ''history''), (''messages'', history)])]"
| "history_settled w (Inl e) = [UnhandledRejection e, ProcessExit 1]"

section \<open>The message handler\<close>

text \<open>
  Lines 119 to 128. The template literal converts \<^verbatim>\<open>channel\<close> to a string before
  anything is logged or sent; when that throws, the exception leaves the function.
\<close>

definition handleSubscription :: "sock \<Rightarrow> js \<Rightarrow> exn + action list" where
  "handleSubscription w message =
     (let channel = property message ''channel''
      in case ToString channel of
           Inl e \<Rightarrow> Inl e
         | Inr s \<Rightarrow>
             Inr [ConsoleLog (''Client subscribed to '' @ s) [],
                  WsSend w (JObj [(''type'', JStr ''subscribed''), (''channel'', channel)])])"

text \<open>Lines 99 to 101.\<close>

definition catch_handler :: "exn \<Rightarrow> action list" where
  "catch_handler e = [ConsoleError ''Error handling message:'' e]"

text \<open>
  Lines 81 to 85: \<^verbatim>\<open>{...parsed, sessionId: session.sessionId, timestamp: ...}\<close>. A
  property of the literal that the spread already brought keeps its place and takes the
  new value; otherwise it is added last.
\<close>

definition echo :: "js \<Rightarrow> ClientSession \<Rightarrow> string \<Rightarrow> js" where
  "echo parsed session stamp =
     JObj (AList.update ''timestamp'' (JStr stamp)
            (AList.update ''sessionId'' (JStr (sessionId session)) (spread parsed)))"

text \<open>
  Lines 67 to 102, up to the \<^verbatim>\<open>await\<close>. \<open>JSON_parse\<close> is \<^verbatim>\<open>JSON.parse\<close> (\<open>None\<close> when
  it throws), \<open>conn\<close> holds the variables \<^verbatim>\<open>ws\<close> and \<^verbatim>\<open>deviceId\<close> of the enclosing
  connection callback, \<open>stamp\<close> is what \<^verbatim>\<open>new Date().toISOString()\<close> returns. The
  non-null assertion on \<^verbatim>\<open>activeSessions.get(...)\<close> checks nothing at run time: were the
  record missing, reading \<^verbatim>\<open>session.ws\<close> would throw a TypeError into the \<^verbatim>\<open>catch\<close>.
\<close>

definition on_message ::
  "(string \<Rightarrow> js option) \<Rightarrow> ClientSession \<Rightarrow> string \<Rightarrow> registry \<Rightarrow> string \<Rightarrow> action list" where
  "on_message JSON_parse conn stamp reg message =
     (case JSON_parse message of
        None \<Rightarrow> catch_handler SyntaxError
      | Some parsed \<Rightarrow>
          (case get_prop parsed ''sessionId'' of
             Inl e \<Rightarrow> catch_handler e
           | Inr sid \<Rightarrow>
               if \<not> truthy sid \<or> \<not> Map_has reg sid
               then [WsClose (ws conn) 1008 ''Invalid session'']
               else if property parsed ''type'' = JStr ''chat''
               then (case Map_get reg sid of
                       None \<Rightarrow> catch_handler TypeError
                     | Some session \<Rightarrow>
                         [WsSend (ws session) (echo parsed session stamp),
                          SaveChatMessage (deviceId conn) (property parsed ''content'')])
               else if property parsed ''type'' = JStr ''subscribe''
               then (case handleSubscription (ws conn) parsed of
                       Inl e \<Rightarrow> catch_handler e
                     | Inr acts \<Rightarrow> acts)
               else [ConsoleLog ''Unknown message type:'' [property parsed ''type'']]))"

text \<open>
  Line 88 and the \<^verbatim>\<open>catch\<close>: the handler resumes when the promise of
  \<^verbatim>\<open>saveChatMessage\<close> settles, \<open>None\<close> when fulfilled and \<open>Some e\<close> when rejected.
\<close>

fun on_message_resumed :: "exn option \<Rightarrow> action list" where
  "on_message_resumed None = []"
| "on_message_resumed (Some e) = catch_handler e"

text \<open>Lines 105 to 108.\<close>

definition on_close :: "ClientSession \<Rightarrow> registry \<Rightarrow> registry \<times> action list" where
  "on_close conn reg =
     (reg(sessionId conn := None), [ConsoleLog ''WebSocket client disconnected'' []])"

section \<open>Broadcast\<close>

datatype ready_state = CONNECTING | OPEN | CLOSING | CLOSED

record client =
  socket :: sock
  readyState :: ready_state

text \<open>Lines 135 to 141; \<open>clients\<close> is \<^verbatim>\<open>wss.clients\<close> in iteration order.\<close>

fun broadcastMessage :: "client list \<Rightarrow> js \<Rightarrow> action list" where
  "broadcastMessage [] message = []"
| "broadcastMessage (c # clients) message =
     (if readyState c = OPEN then [WsSend (socket c) message] else [])
     @ broadcastMessage clients message"

section \<open>The server as a whole\<close>

text \<open>
  The state that \<^verbatim>\<open>createWebSocketServer\<close> sets up and its callbacks share:
  the registry; for each socket whose \<^verbatim>\<open>'close'\<close> event has not fired, the variables its
  listeners close over; the sockets whose \<^verbatim>\<open>getChatHistory\<close> promise is pending; the
  number of message handlers suspended at \<^verbatim>\<open>await saveChatMessage\<close>; the identity
  of the next \<^verbatim>\<open>WebSocket\<close> object; and whether the process has exited.
\<close>

record server =
  activeSessions :: registry
  listeners :: "sock \<rightharpoonup> ClientSession"
  historyPending :: "sock set"
  suspended :: nat
  nextSocket :: sock
  exited :: bool

definition createWebSocketServer :: server where
  "createWebSocketServer =
     \<lparr>activeSessions = Map.empty, listeners = Map.empty, historyPending = {},
      suspended = 0, nextSocket = 0, exited = False\<rparr>"

text \<open>
  The process exits: the registry is gone with its memory, the operating system closes
  every socket without any listener being called, no promise settles any more.
\<close>

definition process_exit :: "server \<Rightarrow> server" where
  "process_exit st =
     \<lparr>activeSessions = Map.empty, listeners = Map.empty, historyPending = {},
      suspended = 0, nextSocket = nextSocket st, exited = True\<rparr>"

text \<open>
  What the event loop delivers: a new connection (with the two clock readings), a text
  frame on a socket (with the clock reading), the close of a socket, and the settling
  of a storage promise. A new connection comes with a new \<^verbatim>\<open>WebSocket\<close> object; a frame
  or a close on a socket without listeners, and the settling of a promise that is not
  pending, are events that are never delivered, and \<open>step\<close> ignores them, as it
  ignores a connection to a process that has exited.
  \<^verbatim>\<open>broadcastMessage\<close> is called by none of the handlers and is no event.
\<close>

datatype event =
    Connect request int int
  | Frame sock string string
  | Closed sock
  | HistorySettled sock "exn + js"
  | SaveSettled "exn option"

fun is_save :: "action \<Rightarrow> bool" where
  "is_save (SaveChatMessage d c) = True"
| "is_save a = False"

fun step :: "(string \<Rightarrow> js option) \<Rightarrow> server \<Rightarrow> event \<Rightarrow> server \<times> action list" where
  "step JSON_parse st (Connect req now_dev now_sess) =
     (if exited st then (st, [])
      else
        (let w = nextSocket st;
             (session, reg, acts) = on_connection w req now_dev now_sess (activeSessions st)
         in (st\<lparr>activeSessions := reg,
                listeners := (listeners st)(w \<mapsto> session),
                historyPending := insert w (historyPending st),
                nextSocket := Suc w\<rparr>, acts)))"
| "step JSON_parse st (Frame w message stamp) =
     (case listeners st w of
        None \<Rightarrow> (st, [])
      | Some conn \<Rightarrow>
          (let acts = on_message JSON_parse conn stamp (activeSessions st) message
           in (st\<lparr>suspended := suspended st + length (filter is_save acts)\<rparr>, acts)))"
| "step JSON_parse st (Closed w) =
     (case listeners st w of
        None \<Rightarrow> (st, [])
      | Some conn \<Rightarrow>
          (let (reg, acts) = on_close conn (activeSessions st)
           in (st\<lparr>activeSessions := reg, listeners := (listeners st)(w := None)\<rparr>, acts)))"
| "step JSON_parse st (HistorySettled w outcome) =
     (if w \<in> historyPending st
      then (case outcome of
              Inl e \<Rightarrow> (process_exit st, history_settled w outcome)
            | Inr history \<Rightarrow>
                (st\<lparr>historyPending := historyPending st - {w}\<rparr>, history_settled w outcome))
      else (st, []))"
| "step JSON_parse st (SaveSettled outcome) =
     (if 0 < suspended st
      then (st\<lparr>suspended := suspended st - 1\<rparr>, on_message_resumed outcome)
      else (st, []))"

fun run :: "(string \<Rightarrow> js option) \<Rightarrow> server \<Rightarrow> event list \<Rightarrow> server \<times> action list" where
  "run JSON_parse st [] = (st, [])"
| "run JSON_parse st (e # es) =
     (let (st1, acts1) = step JSON_parse st e;
          (st2, acts2) = run JSON_parse st1 es
      in (st2, acts1 @ acts2))"

section \<open>Invariants and observations\<close>

text \<open>
  What holds of the server state after any sequence of events: a key of the registry is
  not empty, is the \<open>sessionId\<close> field of its record, and names a socket that was
  handed out; the listeners of a socket close over that socket.
\<close>

definition server_inv :: "server \<Rightarrow> bool" where
  "server_inv st \<longleftrightarrow>
     (\<forall>k s. activeSessions st k = Some s \<longrightarrow> k \<noteq> [] \<and> sessionId s = k \<and> ws s < nextSocket st) \<and>
     (\<forall>w c. listeners st w = Some c \<longrightarrow> ws c = w \<and> w < nextSocket st) \<and>
     (\<forall>w \<in> historyPending st. w < nextSocket st)"

text \<open>The calls a client can observe: a frame sent to it, or its connection closed.\<close>

fun on_wire :: "action \<Rightarrow> bool" where
  "on_wire (WsSend w v) = True"
| "on_wire (WsClose w c r) = True"
| "on_wire a = False"

text \<open>
  The frames sent on one socket, in order, and among their \<^verbatim>\<open>type\<close> fields the three
  that belong to the opening of a connection.
\<close>

fun sent_on :: "sock \<Rightarrow> action list \<Rightarrow> js list" where
  "sent_on w [] = []"
| "sent_on w (WsSend w' v # acts) = (if w' = w then v # sent_on w acts else sent_on w acts)"
| "sent_on w (a # acts) = sent_on w acts"

definition lifecycle :: "sock \<Rightarrow> action list \<Rightarrow> js list" where
  "lifecycle w tr =
     filter (\<lambda>t. t = JStr ''session_init'' \<or> t = JStr ''connection'' \<or> t = JStr ''history'')
       (map (\<lambda>v. property v ''type'') (sent_on w tr))"

text \<open>
  The opening frames of every socket handed out so far, against the pending
  \<^verbatim>\<open>getChatHistory\<close> promises.
\<close>

definition trace_inv :: "server \<Rightarrow> action list \<Rightarrow> bool" where
  "trace_inv st tr \<longleftrightarrow>
     (\<forall>w \<in> historyPending st. w < nextSocket st) \<and>
     (\<forall>w. (w < nextSocket st \<longrightarrow>
            lifecycle w tr = [JStr ''session_init'', JStr ''connection''] \<or>
            (w \<notin> historyPending st \<and>
             lifecycle w tr = [JStr ''session_init'', JStr ''connection'', JStr ''history''])) \<and>
          (nextSocket st \<le> w \<longrightarrow> lifecycle w tr = []))"

text \<open>
  No connection of a run is given a session identifier that is a key of the registry at
  that moment.
\<close>

fun fresh_ids :: "(string \<Rightarrow> js option) \<Rightarrow> server \<Rightarrow> event list \<Rightarrow> bool" where
  "fresh_ids P st [] = True"
| "fresh_ids P st (Connect req a b # es) =
     (activeSessions st (sessionId (new_session (nextSocket st) req a b)) = None \<and>
      fresh_ids P (fst (step P st (Connect req a b))) es)"
| "fresh_ids P st (e # es) = fresh_ids P (fst (step P st e)) es"

text \<open>The registry and the sockets with listeners describe the same sessions.\<close>

definition registry_matches :: "server \<Rightarrow> bool" where
  "registry_matches st \<longleftrightarrow>
     (\<forall>w c. listeners st w = Some c \<longrightarrow>
        ws c = w \<and> w < nextSocket st \<and> activeSessions st (sessionId c) = Some c) \<and>
     (\<forall>k s. activeSessions st k = Some s \<longrightarrow> sessionId s = k \<and> listeners st (ws s) = Some s)"

section \<open>The specification's reading of the device identifier\<close>

text \<open>
  Section 4.1 of the specification as claim C9 words it: the first \<^emph>\<open>defined\<close> value
  among the key header, the remote address and the timestamp string.
\<close>

definition spec_first_defined :: "string option \<Rightarrow> string option \<Rightarrow> string \<Rightarrow> string" where
  "spec_first_defined key addr ts =
     (case key of Some k \<Rightarrow> k | None \<Rightarrow> (case addr of Some a \<Rightarrow> a | None \<Rightarrow> ts))"

section \<open>Sample inputs\<close>

text \<open>
  Two clients behind one address connect one millisecond apart. \<open>sample_parse\<close> stands
  for \<^verbatim>\<open>JSON.parse\<close> on the few frame texts used below; every other text is malformed.
\<close>

definition keyA :: string where "keyA = ''dGhlIHNhbXBsZSBub25jZQ==''"

definition keyB :: string where "keyB = ''x3JJHMbDL1EzLkh9GBhXDw==''"

definition sidA :: string where "sidA = ''dGhlIHNhbXBsZSBub25jZQ==-1700000000000''"

definition sidB :: string where "sidB = ''x3JJHMbDL1EzLkh9GBhXDw==-1700000000001''"

definition sample_request :: "string \<Rightarrow> request" where
  "sample_request key =
     \<lparr>headers = [''sec-websocket-key'' \<mapsto> key], remoteAddress = Some ''203.0.113.9''\<rparr>"

definition sessionA :: ClientSession where
  "sessionA = \<lparr>ws = 0, deviceId = keyA, sessionId = sidA, ipAddress = ''203.0.113.9'',
               userId = None\<rparr>"

definition sessionB :: ClientSession where
  "sessionB = \<lparr>ws = 1, deviceId = keyB, sessionId = sidB, ipAddress = ''203.0.113.9'',
               userId = None\<rparr>"

definition sample_events :: "event list" where
  "sample_events =
     [Connect (sample_request keyA) 1700000000000 1700000000000,
      Connect (sample_request keyB) 1700000000001 1700000000001]"

definition sample_state :: server where
  "sample_state =
     \<lparr>activeSessions = [sidA \<mapsto> sessionA, sidB \<mapsto> sessionB],
      listeners = [0 \<mapsto> sessionA, 1 \<mapsto> sessionB],
      historyPending = {0, 1}, suspended = 0, nextSocket = 2, exited = False\<rparr>"

text \<open>
  The frames the clients send, as parsed values and as texts: a chat frame naming the
  first client's session, the same without \<^verbatim>\<open>content\<close>, a subscribe frame without
  \<^verbatim>\<open>channel\<close>, and a chat frame without \<^verbatim>\<open>sessionId\<close>.
\<close>

definition chat_frame :: js where
  "chat_frame = JObj [(''type'', JStr ''chat''), (''sessionId'', JStr sidA),
                      (''content'', JStr ''hi'')]"

definition bare_chat_frame :: js where
  "bare_chat_frame = JObj [(''type'', JStr ''chat''), (''sessionId'', JStr sidA)]"

definition bare_subscribe_frame :: js where
  "bare_subscribe_frame = JObj [(''type'', JStr ''subscribe''), (''sessionId'', JStr sidA)]"

definition anonymous_frame :: js where
  "anonymous_frame = JObj [(''type'', JStr ''chat''), (''content'', JStr ''hi'')]"

definition chat_text :: string where
  \<open>chat_text =
     ''{"type":"chat","sessionId":"dGhlIHNhbXBsZSBub25jZQ==-1700000000000","content":"hi"}''\<close>

definition bare_chat_text :: string where
  \<open>bare_chat_text =
     ''{"type":"chat","sessionId":"dGhlIHNhbXBsZSBub25jZQ==-1700000000000"}''\<close>

definition bare_subscribe_text :: string where
  \<open>bare_subscribe_text =
     ''{"type":"subscribe","sessionId":"dGhlIHNhbXBsZSBub25jZQ==-1700000000000"}''\<close>

definition anonymous_text :: string where
  \<open>anonymous_text = ''{"type":"chat","content":"hi"}''\<close>

definition sample_parse :: "string \<Rightarrow> js option" where
  "sample_parse s =
     (if s = ''null'' then Some JNull
      else if s = chat_text then Some chat_frame
      else if s = bare_chat_text then Some bare_chat_frame
      else if s = bare_subscribe_text then Some bare_subscribe_frame
      else if s = anonymous_text then Some anonymous_frame
      else None)"

text \<open>The history of the first client is delivered; the second is still pending.\<close>

definition replay_events :: "event list" where
  "replay_events = sample_events @ [HistorySettled 0 (Inr (JArr []))]"

text \<open>
  Two handshakes that carry the same \<^verbatim>\<open>Sec-WebSocket-Key\<close> are accepted within the same
  millisecond, then the first of the two connections closes.
\<close>

definition collision_events :: "event list" where
  "collision_events =
     [Connect (sample_request keyA) 1700000000000 1700000000000,
      Connect (sample_request keyA) 1700000000000 1700000000000,
      Closed 0]"

definition collision_state :: server where
  "collision_state = fst (run sample_parse createWebSocketServer collision_events)"

section \<open>Facts about the handlers\<close>

lemma truthy_prop_is_object: "truthy (property v k) \<Longrightarrow> \<exists>kvs. v = JObj kvs"
  by (cases v) simp_all

lemma property_echo:
  "property (echo parsed session stamp) k =
     (if k = ''timestamp'' then JStr stamp
      else if k = ''sessionId'' then JStr (sessionId session)
      else property parsed k)"
  by (cases parsed) (simp_all add: echo_def update_conv')

lemma get_prop_object:
  "property parsed k \<noteq> JUndefined \<Longrightarrow> get_prop parsed k' = Inr (property parsed k')"
  by (cases parsed) simp_all

text \<open>
  A subscribe frame whose \<^verbatim>\<open>channel\<close> cannot be converted to a string is answered with
  nothing: the TypeError of the template literal reaches the \<^verbatim>\<open>catch\<close> of the message
  handler before anything is logged or sent.
\<close>

lemma handleSubscription_throws:
  "ToString (property message ''channel'') = Inl e \<Longrightarrow> handleSubscription w message = Inl e"
  by (simp add: handleSubscription_def)

lemma subscribe_unprintable_channel:
  assumes "listeners st w = Some conn"
    and "P message = Some parsed"
    and "property parsed ''type'' = JStr ''subscribe''"
    and "property parsed ''sessionId'' = JStr sid" and "sid \<noteq> []"
    and "activeSessions st sid = Some session"
    and "ToString (property parsed ''channel'') = Inl e"
  shows "step P st (Frame w message stamp) = (st, [ConsoleError ''Error handling message:'' e])"
proof -
  from assms(4) have "get_prop parsed ''sessionId'' = Inr (property parsed ''sessionId'')"
    by (simp add: get_prop_object [of parsed "''sessionId''"])
  with assms show ?thesis
    by (simp add: on_message_def handleSubscription_throws catch_handler_def)
qed

text \<open>
  A rejected append is caught inside the message handler and logged: the registry and
  the listeners are as before, and nothing is sent or closed.
\<close>

lemma append_failure_continues:
  "activeSessions (fst (step P st (SaveSettled (Some e)))) = activeSessions st \<and>
   listeners (fst (step P st (SaveSettled (Some e)))) = listeners st \<and>
   exited (fst (step P st (SaveSettled (Some e)))) = exited st \<and>
   filter on_wire (snd (step P st (SaveSettled (Some e)))) = [] \<and>
   (0 < suspended st \<longrightarrow>
      snd (step P st (SaveSettled (Some e))) = [ConsoleError ''Error handling message:'' e])"
  by (simp add: catch_handler_def)

text \<open>A rejected history fetch that is pending ends the process, whatever the state.\<close>

lemma history_rejection_step:
  "w \<in> historyPending st \<Longrightarrow>
     step P st (HistorySettled w (Inl e)) = (process_exit st, [UnhandledRejection e, ProcessExit 1])"
  by simp

lemma handshake_accepted_key:
  "handshake_accepted req \<Longrightarrow> \<exists>key. headers req ''sec-websocket-key'' = Some key \<and> key \<noteq> []"
  by (auto simp: handshake_accepted_def split: option.splits)

text \<open>
  The chain of \<^verbatim>\<open>||\<close> takes the first value that is defined and not the empty string.
\<close>

lemma deviceId_chain:
  "deviceId (new_session w req now_dev now_sess) =
     (case headers req ''sec-websocket-key'' of
        Some key \<Rightarrow>
          if key \<noteq> [] then key
          else (case remoteAddress req of
                  Some a \<Rightarrow> if a \<noteq> [] then a else toString now_dev
                | None \<Rightarrow> toString now_dev)
      | None \<Rightarrow>
          (case remoteAddress req of
             Some a \<Rightarrow> if a \<noteq> [] then a else toString now_dev
           | None \<Rightarrow> toString now_dev))"
  by (simp add: new_session_def or_else_def Let_def split: option.splits)

subsection \<open>The state invariant\<close>

lemma new_session_fields:
  "ws (new_session w req a b) = w"
  "sessionId (new_session w req a b) = deviceId (new_session w req a b) @ ''-'' @ toString b"
  by (simp_all add: new_session_def Let_def)

lemma server_inv_init: "server_inv createWebSocketServer"
  by (simp add: server_inv_def createWebSocketServer_def)

lemma server_inv_step: "server_inv st \<Longrightarrow> server_inv (fst (step P st e))"
proof (cases e)
  case (Connect req a b)
  assume "server_inv st"
  then show ?thesis using Connect
    by (auto simp: server_inv_def on_connection_def new_session_fields Let_def less_Suc_eq
        split: if_splits)
next
  case (Frame w m s)
  assume "server_inv st"
  then show ?thesis using Frame
    by (auto simp: server_inv_def Let_def split: option.splits)
next
  case (Closed w)
  assume "server_inv st"
  then show ?thesis using Closed
    by (auto simp: server_inv_def on_close_def Let_def split: option.splits if_splits)
next
  case (HistorySettled w out)
  assume "server_inv st"
  then show ?thesis using HistorySettled
    by (auto simp: server_inv_def process_exit_def split: sum.splits)
next
  case (SaveSettled out)
  assume "server_inv st"
  then show ?thesis using SaveSettled
    by (auto simp: server_inv_def)
qed

lemma server_inv_run: "server_inv st \<Longrightarrow> server_inv (fst (run P st es))"
proof (induction es arbitrary: st)
  case Nil
  then show ?case by simp
next
  case (Cons e es)
  from Cons.prems have "server_inv (fst (step P st e))" by (rule server_inv_step)
  then have "server_inv (fst (run P (fst (step P st e)) es))" by (rule Cons.IH)
  then show ?case by (simp add: split_beta Let_def)
qed

lemma reachable_inv: "run P createWebSocketServer es = (st, tr) \<Longrightarrow> server_inv st"
  using server_inv_run [OF server_inv_init, of P es] by simp

text \<open>The close of a socket deletes the key its listeners close over.\<close>

lemma close_removes_session:
  assumes "listeners st w = Some conn"
  shows "activeSessions (fst (step P st (Closed w))) (sessionId conn) = None \<and>
         listeners (fst (step P st (Closed w))) w = None"
  using assms by (simp add: on_close_def)

subsection \<open>Opening frames along a run\<close>

lemma sent_on_append: "sent_on w (tr1 @ tr2) = sent_on w tr1 @ sent_on w tr2"
  by (induction w tr1 rule: sent_on.induct) simp_all

lemma lifecycle_append: "lifecycle w (tr1 @ tr2) = lifecycle w tr1 @ lifecycle w tr2"
  by (simp add: lifecycle_def sent_on_append)

lemma lifecycle_Nil [simp]: "lifecycle w [] = []"
  by (simp add: lifecycle_def)

lemma lifecycle_on_message: "lifecycle w' (on_message P conn stamp reg message) = []"
  by (auto simp add: on_message_def lifecycle_def catch_handler_def handleSubscription_def
      property_echo Let_def split: option.splits sum.splits)

lemma lifecycle_on_connection:
  "lifecycle w' (snd (snd (on_connection w req a b reg))) =
     (if w' = w then [JStr ''session_init'', JStr ''connection''] else [])"
  by (simp add: on_connection_def lifecycle_def Let_def)

lemma lifecycle_history_settled:
  "lifecycle w' (history_settled w (Inl e)) = []"
  "lifecycle w' (history_settled w (Inr h)) = (if w' = w then [JStr ''history''] else [])"
  by (simp_all add: lifecycle_def)

lemma lifecycle_on_close: "lifecycle w' (snd (on_close conn reg)) = []"
  by (simp add: on_close_def lifecycle_def)

lemma lifecycle_resumed: "lifecycle w' (on_message_resumed outcome) = []"
  by (cases outcome) (simp_all add: lifecycle_def catch_handler_def)

lemma trace_inv_step:
  assumes "trace_inv st tr"
  shows "trace_inv (fst (step P st e)) (tr @ snd (step P st e))"
proof (cases e)
  case (Connect req a b)
  with assms show ?thesis
    by (auto simp: trace_inv_def lifecycle_append lifecycle_on_connection split_beta Let_def
        less_Suc_eq)
next
  case (Frame w m s)
  with assms show ?thesis
    by (auto simp: trace_inv_def lifecycle_append lifecycle_on_message Let_def
        split: option.splits)
next
  case (Closed w)
  with assms show ?thesis
    using lifecycle_on_close
    by (auto simp: trace_inv_def lifecycle_append split_beta Let_def split: option.splits)
next
  case (HistorySettled w out)
  with assms show ?thesis
    by (cases out)
      (auto simp: trace_inv_def lifecycle_append lifecycle_history_settled process_exit_def
        simp del: history_settled.simps)
next
  case (SaveSettled out)
  with assms show ?thesis
    by (auto simp: trace_inv_def lifecycle_append lifecycle_resumed
        simp del: on_message_resumed.simps)
qed

lemma trace_inv_run:
  "trace_inv st tr \<Longrightarrow> trace_inv (fst (run P st es)) (tr @ snd (run P st es))"
proof (induction es arbitrary: st tr)
  case Nil
  then show ?case by simp
next
  case (Cons e es)
  from Cons.prems have "trace_inv (fst (step P st e)) (tr @ snd (step P st e))"
    by (rule trace_inv_step)
  from Cons.IH [OF this] show ?case by (simp add: split_beta Let_def)
qed

lemma trace_inv_init: "trace_inv createWebSocketServer []"
  by (simp add: trace_inv_def createWebSocketServer_def lifecycle_def)

subsection \<open>The registry and the open connections\<close>

lemma registry_matches_init: "registry_matches createWebSocketServer"
  by (simp add: registry_matches_def createWebSocketServer_def)

lemma registry_matches_listener:
  "registry_matches st \<Longrightarrow> listeners st w = Some c \<Longrightarrow>
     ws c = w \<and> w < nextSocket st \<and> activeSessions st (sessionId c) = Some c"
  by (simp add: registry_matches_def)

lemma registry_matches_key:
  "registry_matches st \<Longrightarrow> activeSessions st k = Some s \<Longrightarrow>
     sessionId s = k \<and> listeners st (ws s) = Some s"
  by (simp add: registry_matches_def)

lemma registry_matches_connect:
  assumes inv: "registry_matches st"
    and fresh: "activeSessions st (sessionId (new_session (nextSocket st) req a b)) = None"
  shows "registry_matches (fst (step P st (Connect req a b)))"
proof -
  let ?n = "new_session (nextSocket st) req a b"
  have old_key: "sessionId c \<noteq> sessionId ?n" if "listeners st w = Some c" for w c
  proof
    assume "sessionId c = sessionId ?n"
    moreover from registry_matches_listener [OF inv that]
    have "activeSessions st (sessionId c) = Some c" by simp
    ultimately show False using fresh by simp
  qed
  have old_sock: "ws s \<noteq> nextSocket st" if "activeSessions st k = Some s" for k s
  proof -
    from registry_matches_key [OF inv that] have "listeners st (ws s) = Some s" by simp
    from registry_matches_listener [OF inv this] show ?thesis by simp
  qed
  let ?st = "st\<lparr>activeSessions := (activeSessions st)(sessionId ?n \<mapsto> ?n),
          listeners := (listeners st)(nextSocket st \<mapsto> ?n),
          historyPending := insert (nextSocket st) (historyPending st),
          nextSocket := Suc (nextSocket st)\<rparr>"
  have n: "ws ?n = nextSocket st" by (simp add: new_session_fields(1))
  have "registry_matches ?st"
    unfolding registry_matches_def
  proof (intro conjI allI impI)
    fix w c
    assume l: "listeners ?st w = Some c"
    show "ws c = w" and "w < nextSocket ?st" and "activeSessions ?st (sessionId c) = Some c"
    proof -
      consider "w = nextSocket st" "c = ?n" | "w \<noteq> nextSocket st" "listeners st w = Some c"
        using l by (auto split: if_splits)
      then have "ws c = w \<and> w < nextSocket ?st \<and> activeSessions ?st (sessionId c) = Some c"
      proof cases
        case 1
        with n show ?thesis by simp
      next
        case 2
        from registry_matches_listener [OF inv 2(2)] old_key [OF 2(2)]
        show ?thesis by simp
      qed
      then show "ws c = w" and "w < nextSocket ?st"
        and "activeSessions ?st (sessionId c) = Some c"
        by simp_all
    qed
  next
    fix k s
    assume a: "activeSessions ?st k = Some s"
    show "sessionId s = k" and "listeners ?st (ws s) = Some s"
    proof -
      consider "k = sessionId ?n" "s = ?n" | "k \<noteq> sessionId ?n" "activeSessions st k = Some s"
        using a by (auto split: if_splits)
      then have "sessionId s = k \<and> listeners ?st (ws s) = Some s"
      proof cases
        case 1
        with n show ?thesis by simp
      next
        case 2
        from registry_matches_key [OF inv 2(2)] old_sock [OF 2(2)]
        show ?thesis by simp
      qed
      then show "sessionId s = k" and "listeners ?st (ws s) = Some s" by simp_all
    qed
  qed
  with inv show ?thesis by (simp add: on_connection_def Let_def)
qed

lemma registry_matches_closed:
  assumes "registry_matches st"
  shows "registry_matches (fst (step P st (Closed w)))"
proof (cases "listeners st w")
  case None
  with assms show ?thesis by simp
next
  case (Some c)
  have "registry_matches
      (st\<lparr>activeSessions := (activeSessions st)(sessionId c := None),
          listeners := (listeners st)(w := None)\<rparr>)"
    unfolding registry_matches_def
  proof (intro conjI allI impI)
    fix w' c'
    assume l: "listeners
        (st\<lparr>activeSessions := (activeSessions st)(sessionId c := None),
            listeners := (listeners st)(w := None)\<rparr>) w' = Some c'"
    then have w': "w' \<noteq> w" and old: "listeners st w' = Some c'"
      by (auto split: if_splits)
    from registry_matches_listener [OF assms old]
    have c': "ws c' = w'" "w' < nextSocket st" "activeSessions st (sessionId c') = Some c'"
      by simp_all
    from registry_matches_listener [OF assms Some]
    have c: "ws c = w" "activeSessions st (sessionId c) = Some c"
      by simp_all
    from c c' w' have "sessionId c' \<noteq> sessionId c" by auto
    with c' show "ws c' = w'"
      and "w' < nextSocket
        (st\<lparr>activeSessions := (activeSessions st)(sessionId c := None),
            listeners := (listeners st)(w := None)\<rparr>)"
      and "activeSessions
        (st\<lparr>activeSessions := (activeSessions st)(sessionId c := None),
            listeners := (listeners st)(w := None)\<rparr>) (sessionId c') = Some c'"
      by simp_all
  next
    fix k s
    assume a: "activeSessions
        (st\<lparr>activeSessions := (activeSessions st)(sessionId c := None),
            listeners := (listeners st)(w := None)\<rparr>) k = Some s"
    then have k: "k \<noteq> sessionId c" and old: "activeSessions st k = Some s"
      by (auto split: if_splits)
    from registry_matches_key [OF assms old]
    have s: "sessionId s = k" "listeners st (ws s) = Some s"
      by simp_all
    from s Some k have "ws s \<noteq> w" by auto
    with s show "sessionId s = k"
      and "listeners
        (st\<lparr>activeSessions := (activeSessions st)(sessionId c := None),
            listeners := (listeners st)(w := None)\<rparr>) (ws s) = Some s"
      by simp_all
  qed
  with Some show ?thesis by (simp add: on_close_def)
qed

lemma registry_matches_other:
  assumes "registry_matches st"
  shows "registry_matches (fst (step P st (Frame w m s)))"
    and "registry_matches (fst (step P st (HistorySettled w out)))"
    and "registry_matches (fst (step P st (SaveSettled out')))"
  using assms
  by (auto simp: registry_matches_def process_exit_def Let_def split: option.splits sum.splits)

lemma registry_matches_run:
  "registry_matches st \<Longrightarrow> fresh_ids P st es \<Longrightarrow> registry_matches (fst (run P st es))"
proof (induction es arbitrary: st)
  case Nil
  then show ?case by simp
next
  case (Cons e es)
  have "registry_matches (fst (step P st e)) \<and> fresh_ids P (fst (step P st e)) es"
  proof (cases e)
    case (Connect req a b)
    with Cons.prems show ?thesis by (simp add: registry_matches_connect del: step.simps)
  next
    case (Frame w m s)
    with Cons.prems show ?thesis by (simp add: registry_matches_other del: step.simps)
  next
    case (Closed w)
    with Cons.prems show ?thesis by (simp add: registry_matches_closed del: step.simps)
  next
    case (HistorySettled w out)
    with Cons.prems show ?thesis by (simp add: registry_matches_other del: step.simps)
  next
    case (SaveSettled out)
    with Cons.prems show ?thesis by (simp add: registry_matches_other del: step.simps)
  qed
  then have "registry_matches (fst (run P (fst (step P st e)) es))"
    by (intro Cons.IH) simp_all
  then show ?case by (simp add: split_beta Let_def del: step.simps)
qed

text \<open>
  As long as no two connections open at the same time share a session identifier, a
  \<open>sessionId\<close> is a key of the registry exactly when a connection that was given it is
  open.
\<close>

lemma registered_iff_open:
  assumes "run P createWebSocketServer es = (st, tr)"
    and "fresh_ids P createWebSocketServer es"
  shows "k \<in> dom (activeSessions st) \<longleftrightarrow> (\<exists>w c. listeners st w = Some c \<and> sessionId c = k)"
proof -
  from registry_matches_run [OF registry_matches_init assms(2)] assms(1)
  have "registry_matches st" by simp
  then show ?thesis by (fastforce simp: registry_matches_def)
qed

subsection \<open>The sample inputs evaluated\<close>

lemmas sample_defs =
  keyA_def keyB_def sidA_def sidB_def sample_request_def sessionA_def sessionB_def
  sample_events_def sample_state_def

lemma toString_samples:
  "toString 1700000000000 = ''1700000000000''" "toString 1700000000001 = ''1700000000001''"
  by (simp_all add: toString_def digits.simps digit_def)

lemma sample_run: "fst (run sample_parse createWebSocketServer sample_events) = sample_state"
  by (simp add: sample_defs createWebSocketServer_def on_connection_def new_session_def
      or_else_def toString_samples Let_def insert_commute)

lemma sample_reach:
  "run sample_parse createWebSocketServer sample_events =
     (sample_state, snd (run sample_parse createWebSocketServer sample_events))"
  using sample_run by (metis prod.collapse)

lemma sample_lookups:
  "listeners sample_state 0 = Some sessionA" "listeners sample_state 1 = Some sessionB"
  "activeSessions sample_state sidA = Some sessionA"
  "activeSessions sample_state sidB = Some sessionB"
  by (simp_all add: sample_state_def sidA_def sidB_def)

lemma sample_parses:
  "sample_parse ''{oops'' = None" "sample_parse ''null'' = Some JNull"
  "sample_parse chat_text = Some chat_frame" "sample_parse bare_chat_text = Some bare_chat_frame"
  "sample_parse bare_subscribe_text = Some bare_subscribe_frame"
  "sample_parse anonymous_text = Some anonymous_frame"
  by (simp_all add: sample_parse_def chat_text_def bare_chat_text_def bare_subscribe_text_def
      anonymous_text_def)

lemma sample_properties:
  "property chat_frame ''type'' = JStr ''chat''"
  "property chat_frame ''sessionId'' = JStr sidA"
  "property chat_frame ''content'' = JStr ''hi''"
  "property bare_chat_frame ''type'' = JStr ''chat''"
  "property bare_chat_frame ''sessionId'' = JStr sidA"
  "property bare_chat_frame ''content'' = JUndefined"
  "property bare_subscribe_frame ''type'' = JStr ''subscribe''"
  "property bare_subscribe_frame ''sessionId'' = JStr sidA"
  "property bare_subscribe_frame ''channel'' = JUndefined"
  "property anonymous_frame ''sessionId'' = JUndefined"
  by (simp_all add: chat_frame_def bare_chat_frame_def bare_subscribe_frame_def
      anonymous_frame_def)

lemma sample_echoes:
  "echo chat_frame sessionA stamp =
     JObj [(''type'', JStr ''chat''), (''sessionId'', JStr sidA), (''content'', JStr ''hi''),
           (''timestamp'', JStr stamp)]"
  "echo bare_chat_frame sessionA stamp =
     JObj [(''type'', JStr ''chat''), (''sessionId'', JStr sidA), (''timestamp'', JStr stamp)]"
  by (simp_all add: echo_def chat_frame_def bare_chat_frame_def sessionA_def)

text \<open>The two clients of the sample get fresh identifiers; the colliding handshakes do not.\<close>

lemma sample_events_fresh: "fresh_ids sample_parse createWebSocketServer sample_events"
  by (simp add: sample_defs createWebSocketServer_def on_connection_def new_session_def
      or_else_def toString_samples Let_def)

lemma collision_events_not_fresh:
  "\<not> fresh_ids sample_parse createWebSocketServer collision_events"
  by (simp add: collision_events_def sample_defs createWebSocketServer_def on_connection_def
      new_session_def or_else_def toString_samples Let_def)

lemma sample_handshakes:
  "handshake_accepted (sample_request keyA)" "handshake_accepted (sample_request keyB)"
  by (simp_all add: handshake_accepted_def keyRegex_test_def base64_char_def
      sample_request_def keyA_def keyB_def)

section \<open>The claims\<close>

subsection \<open>Invalid session (C1)\<close>

text \<open>
  Claim C1 as stated fails on the frame \<^verbatim>\<open>null\<close>: it parses as JSON and has no
  \<^verbatim>\<open>sessionId\<close>, yet reading \<^verbatim>\<open>parsed.sessionId\<close> throws, the \<^verbatim>\<open>catch\<close> logs the
  TypeError, and the connection is not closed.
\<close>

theorem null_frame_not_closed:
  "sample_parse ''null'' = Some JNull \<and>
   listeners sample_state 0 = Some sessionA \<and>
   step sample_parse sample_state (Frame 0 ''null'' ''2023-11-14T22:13:21.000Z'') =
     (sample_state, [ConsoleError ''Error handling message:'' TypeError]) \<and>
   step sample_parse sample_state (Frame 0 ''null'' ''2023-11-14T22:13:21.000Z'') \<noteq>
     (sample_state, [WsClose 0 1008 ''Invalid session''])"
  by (simp add: sample_parses sample_lookups on_message_def catch_handler_def)

text \<open>
  Claim C1, amended. For every inbound frame that parses to a JSON value other than
  \<^verbatim>\<open>null\<close> and whose \<^verbatim>\<open>sessionId\<close> field is missing or is not a key of the session
  registry, the message handler closes the connection on which the frame arrived with
  code 1008 and reason "Invalid session", and neither an echo send nor a persistence
  append is performed for that frame: the close is the only call, and the state is
  unchanged. (\<open>JUndefined\<close> is excluded with \<^verbatim>\<open>null\<close>: it is no JSON value.)
\<close>

theorem invalid_session_closed:
  assumes reach: "run P createWebSocketServer es = (st, tr)"
    and conn: "listeners st w = Some conn"
    and parsed: "P message = Some parsed" "parsed \<noteq> JNull" "parsed \<noteq> JUndefined"
    and invalid: "\<nexists>s. property parsed ''sessionId'' = JStr s \<and> s \<in> dom (activeSessions st)"
  shows "step P st (Frame w message stamp) = (st, [WsClose w 1008 ''Invalid session''])"
proof -
  from reach have "server_inv st" by (rule reachable_inv)
  with conn have w: "ws conn = w" by (simp add: server_inv_def)
  from parsed have g: "get_prop parsed ''sessionId'' = Inr (property parsed ''sessionId'')"
    by (cases parsed) simp_all
  from invalid have "\<not> Map_has (activeSessions st) (property parsed ''sessionId'')"
    by (cases "property parsed ''sessionId''") auto
  with conn parsed g w show ?thesis by (simp add: on_message_def)
qed

theorem invalid_session_closed_witness:
  "sample_parse anonymous_text = Some anonymous_frame \<and>
   property anonymous_frame ''sessionId'' = JUndefined \<and>
   step sample_parse sample_state (Frame 0 anonymous_text ''2023-11-14T22:13:21.000Z'') =
     (sample_state, [WsClose 0 1008 ''Invalid session''])"
proof -
  have "anonymous_frame \<noteq> JNull" "anonymous_frame \<noteq> JUndefined"
    by (simp_all add: anonymous_frame_def)
  moreover have "\<nexists>s. property anonymous_frame ''sessionId'' = JStr s
      \<and> s \<in> dom (activeSessions sample_state)"
    by (simp add: sample_properties)
  ultimately show ?thesis
    using invalid_session_closed [OF sample_reach sample_lookups(1) sample_parses(6)]
    by (simp add: sample_parses sample_properties)
qed

subsection \<open>Chat echo (C2)\<close>

text \<open>
  Claim C2. For every chat frame carrying a \<^verbatim>\<open>sessionId\<close> that is present in the
  registry, the echo is sent exactly once, to the socket stored in the registry record
  for that \<^verbatim>\<open>sessionId\<close> and to no other connection; the echoed message has the parsed
  frame's fields, with \<^verbatim>\<open>sessionId\<close> set to the resolved one and \<^verbatim>\<open>timestamp\<close> set to
  the server's \<^verbatim>\<open>toISOString()\<close> reading; and the send comes before the call of
  \<^verbatim>\<open>saveChatMessage\<close>. The frame may arrive on any open connection \<open>w\<close>, in any
  state the server can reach.
\<close>

theorem chat_echo:
  assumes reach: "run P createWebSocketServer es = (st, tr)"
    and conn: "listeners st w = Some conn"
    and parsed: "P message = Some parsed"
    and chat: "property parsed ''type'' = JStr ''chat''"
    and sid: "property parsed ''sessionId'' = JStr sid"
    and session: "activeSessions st sid = Some session"
  shows "snd (step P st (Frame w message stamp)) =
           [WsSend (ws session) (echo parsed session stamp),
            SaveChatMessage (deviceId conn) (property parsed ''content'')]
         \<and> property (echo parsed session stamp) k =
             (if k = ''timestamp'' then JStr stamp
              else if k = ''sessionId'' then JStr sid
              else property parsed k)"
proof -
  from reach have "server_inv st" by (rule reachable_inv)
  with session have s: "sid \<noteq> []" "sessionId session = sid" by (auto simp: server_inv_def)
  from chat have g: "get_prop parsed ''sessionId'' = Inr (property parsed ''sessionId'')"
    by (simp add: get_prop_object [of parsed "''type''"])
  from conn parsed chat sid session s g show ?thesis
    by (simp add: on_message_def property_echo)
qed

theorem chat_echo_witness:
  "snd (step sample_parse sample_state (Frame 1 chat_text ''2023-11-14T22:13:21.000Z'')) =
     [WsSend 0 (JObj [(''type'', JStr ''chat''), (''sessionId'', JStr sidA),
                      (''content'', JStr ''hi''),
                      (''timestamp'', JStr ''2023-11-14T22:13:21.000Z'')]),
      SaveChatMessage keyB (JStr ''hi'')]"
  using chat_echo [OF sample_reach sample_lookups(2) sample_parses(3) sample_properties(1)
      sample_properties(2) sample_lookups(3), of "''2023-11-14T22:13:21.000Z''" "''type''"]
  by (simp only: sample_echoes sample_properties)
    (simp add: sessionA_def sessionB_def)

subsection \<open>Opening frames (C3)\<close>

text \<open>
  Claim C3. On every new connection, exactly one \<^verbatim>\<open>session_init\<close> frame and exactly one
  \<^verbatim>\<open>connection\<close> frame are sent on that socket, in that order, and both are sent before
  the \<^verbatim>\<open>history\<close> frame for that connection. Along any run of the server, the frames of
  these three types sent on a socket that was handed out are \<^verbatim>\<open>session_init\<close>,
  \<^verbatim>\<open>connection\<close> and then, once the history promise was fulfilled, \<^verbatim>\<open>history\<close>.
\<close>

theorem connection_frames_order:
  assumes "run P createWebSocketServer es = (st, tr)" and "w < nextSocket st"
  shows "lifecycle w tr = [JStr ''session_init'', JStr ''connection''] \<or>
         (w \<notin> historyPending st \<and>
          lifecycle w tr = [JStr ''session_init'', JStr ''connection'', JStr ''history''])"
proof -
  from trace_inv_run [OF trace_inv_init, of P es] assms(1) have "trace_inv st tr" by simp
  with assms(2) show ?thesis by (simp add: trace_inv_def)
qed

theorem connection_frames_order_witness:
  "nextSocket (fst (run sample_parse createWebSocketServer replay_events)) = 2 \<and>
   lifecycle 0 (snd (run sample_parse createWebSocketServer replay_events)) =
     [JStr ''session_init'', JStr ''connection'', JStr ''history''] \<and>
   lifecycle 1 (snd (run sample_parse createWebSocketServer replay_events)) =
     [JStr ''session_init'', JStr ''connection'']"
proof -
  let ?r = "run sample_parse createWebSocketServer replay_events"
  have r: "?r = (fst ?r, snd ?r)" by simp
  have n: "nextSocket (fst ?r) = 2"
    and p: "historyPending (fst ?r) = {1}"
    by (auto simp add: replay_events_def sample_events_def createWebSocketServer_def
        on_connection_def Let_def)
  have l: "length (lifecycle 0 (snd ?r)) = 3"
    by (simp add: replay_events_def sample_events_def createWebSocketServer_def
        on_connection_def Let_def lifecycle_def)
  from n have w: "0 < nextSocket (fst ?r)" "1 < nextSocket (fst ?r)" by simp_all
  from connection_frames_order [OF r w(1)] l
  have l0: "lifecycle 0 (snd ?r) = [JStr ''session_init'', JStr ''connection'', JStr ''history'']"
    by (elim disjE conjE) simp_all
  from connection_frames_order [OF r w(2)] p
  have l1: "lifecycle 1 (snd ?r) = [JStr ''session_init'', JStr ''connection'']"
    by simp
  from n l0 l1 show ?thesis by (intro conjI)
qed

subsection \<open>Persistence key (C4)\<close>

text \<open>
  Claim C4. For every valid chat frame, the one persistence append is keyed by the
  \<^verbatim>\<open>deviceId\<close> of the connection on which the frame arrived (the variable the listener
  closes over), not by the \<^verbatim>\<open>deviceId\<close> of the registry record resolved from the
  frame's \<^verbatim>\<open>sessionId\<close>, and the appended content is the frame's \<^verbatim>\<open>content\<close> field.
\<close>

theorem chat_append_keyed_by_connection:
  assumes reach: "run P createWebSocketServer es = (st, tr)"
    and conn: "listeners st w = Some conn"
    and parsed: "P message = Some parsed"
    and chat: "property parsed ''type'' = JStr ''chat''"
    and sid: "property parsed ''sessionId'' = JStr sid"
    and session: "activeSessions st sid = Some session"
  shows "filter is_save (snd (step P st (Frame w message stamp))) =
           [SaveChatMessage (deviceId conn) (property parsed ''content'')]"
proof -
  from reach have "server_inv st" by (rule reachable_inv)
  with session have s: "sid \<noteq> []" by (auto simp: server_inv_def)
  from chat have g: "get_prop parsed ''sessionId'' = Inr (property parsed ''sessionId'')"
    by (simp add: get_prop_object [of parsed "''type''"])
  from conn parsed chat sid session s g show ?thesis
    by (simp add: on_message_def)
qed

theorem chat_append_keyed_by_connection_witness:
  "deviceId sessionA = keyA \<and> keyA \<noteq> keyB \<and>
   filter is_save
     (snd (step sample_parse sample_state (Frame 1 chat_text ''2023-11-14T22:13:21.000Z''))) =
     [SaveChatMessage keyB (JStr ''hi'')]"
  using chat_append_keyed_by_connection
    [OF sample_reach sample_lookups(2) sample_parses(3) sample_properties(1)
      sample_properties(2) sample_lookups(3), of "''2023-11-14T22:13:21.000Z''"]
  by (simp only: sample_properties) (simp add: sessionA_def sessionB_def keyA_def keyB_def)

subsection \<open>Persistence failure (C5)\<close>

text \<open>
  Claim C5 at a failed history fetch. A failure of the persistence collaborator (append
  or history fetch) results in silent continuation: the connection stays open, the
  registry is unchanged, and no error frame or close is surfaced to the client. With
  both sample clients connected, the \<^verbatim>\<open>getChatHistory\<close> promise of the first is rejected:
  no handler receives the rejection, the process exits, the registry is gone, neither
  client has a connection any more, and a chat frame of the second client, whose own
  fetch did not fail, is not served.
\<close>

theorem history_rejection_exits:
  "0 \<in> historyPending sample_state \<and>
   listeners sample_state 1 = Some sessionB \<and>
   step sample_parse sample_state (HistorySettled 0 (Inl (Rejection (JStr ''EIO'')))) =
     (process_exit sample_state,
      [UnhandledRejection (Rejection (JStr ''EIO'')), ProcessExit 1]) \<and>
   exited (process_exit sample_state) \<and>
   activeSessions (process_exit sample_state) sidA = None \<and>
   listeners (process_exit sample_state) 0 = None \<and>
   listeners (process_exit sample_state) 1 = None \<and>
   step sample_parse (process_exit sample_state)
     (Frame 1 chat_text ''2023-11-14T22:13:21.000Z'') = (process_exit sample_state, [])"
  by (simp add: sample_lookups) (simp add: sample_state_def process_exit_def)

subsection \<open>Malformed frames (C6)\<close>

text \<open>
  Claim C6. For every inbound frame that is not valid JSON, the handler logs the error
  and drops the frame: the connection remains open, no response frame is sent, no
  registry entry is added or removed, and no persistence call is made. In the model: on
  a socket with listeners, a frame on which \<^verbatim>\<open>JSON.parse\<close> throws leaves the whole
  server state as it was, and the only call made is one \<^verbatim>\<open>console.error\<close>.
\<close>

theorem malformed_frame_dropped:
  assumes "listeners st w = Some conn" and "P message = None"
  shows "step P st (Frame w message stamp) =
           (st, [ConsoleError ''Error handling message:'' SyntaxError])"
  using assms by (simp add: on_message_def catch_handler_def)

theorem malformed_frame_dropped_witness:
  "sample_parse ''{oops'' = None \<and>
   step sample_parse sample_state (Frame 0 ''{oops'' ''2023-11-14T22:13:21.000Z'') =
     (sample_state, [ConsoleError ''Error handling message:'' SyntaxError])"
  using malformed_frame_dropped [of sample_state 0 sessionA sample_parse "''{oops''",
      OF sample_lookups(1) sample_parses(1)] sample_parses(1)
  by simp

subsection \<open>Registry and open connections (C7)\<close>

text \<open>
  Claim C7 at the input \<open>collision_events\<close>: both connections get the session identifier
  \<open>sidA\<close>, the close of the first deletes that key, and the second connection, still
  open, is not in the registry: its own chat frame, carrying the \<^verbatim>\<open>sessionId\<close> it was
  given, is answered with the invalid-session close.
\<close>

theorem session_id_collision:
  "listeners collision_state 1 = Some (sessionA\<lparr>ws := 1\<rparr>) \<and>
   sessionId (sessionA\<lparr>ws := 1\<rparr>) = sidA \<and>
   activeSessions collision_state sidA = None \<and>
   property chat_frame ''sessionId'' = JStr sidA \<and>
   step sample_parse collision_state (Frame 1 chat_text ''2023-11-14T22:13:21.000Z'') =
     (collision_state, [WsClose 1 1008 ''Invalid session''])"
proof -
  have st: "collision_state =
      \<lparr>activeSessions = Map.empty, listeners = [1 \<mapsto> sessionA\<lparr>ws := 1\<rparr>],
       historyPending = {0, 1}, suspended = 0, nextSocket = 2, exited = False\<rparr>"
    by (simp add: collision_state_def collision_events_def sample_defs
        createWebSocketServer_def on_connection_def new_session_def or_else_def
        toString_samples on_close_def Let_def insert_commute fun_upd_twist)
  show ?thesis
    by (simp add: st sample_parses on_message_def sessionA_def chat_frame_def Let_def)
qed

subsection \<open>Broadcast (C8)\<close>

text \<open>
  Claim C8. \<^verbatim>\<open>broadcastMessage(wss, message)\<close> sends the message to every tracked client
  whose \<^verbatim>\<open>readyState\<close> is OPEN and to no client in any other state; the others are
  skipped without any other call.
\<close>

theorem broadcastMessage_open_only:
  "broadcastMessage clients message =
     map (\<lambda>c. WsSend (socket c) message) (filter (\<lambda>c. readyState c = OPEN) clients)"
  by (induction clients) simp_all

theorem broadcastMessage_open_only_witness:
  "broadcastMessage
     [\<lparr>socket = 0, readyState = OPEN\<rparr>, \<lparr>socket = 1, readyState = CLOSING\<rparr>,
      \<lparr>socket = 2, readyState = CLOSED\<rparr>, \<lparr>socket = 3, readyState = CONNECTING\<rparr>,
      \<lparr>socket = 4, readyState = OPEN\<rparr>] (JStr ''tick'') =
     [WsSend 0 (JStr ''tick''), WsSend 4 (JStr ''tick'')]"
  using broadcastMessage_open_only
    [of "[\<lparr>socket = 0, readyState = OPEN\<rparr>, \<lparr>socket = 1, readyState = CLOSING\<rparr>,
      \<lparr>socket = 2, readyState = CLOSED\<rparr>, \<lparr>socket = 3, readyState = CONNECTING\<rparr>,
      \<lparr>socket = 4, readyState = OPEN\<rparr>]" "JStr ''tick''"]
  by simp

subsection \<open>Identity assignment (C9)\<close>

text \<open>
  Claim C9. On every new connection, identity assignment always succeeds with no
  failure mode: \<open>deviceId\<close> is the first defined value among the protocol key header,
  the remote socket address, and a timestamp string, and \<open>sessionId\<close> is the
  concatenation of that \<open>deviceId\<close>, a hyphen, and the connection's creation timestamp.
  A new connection is one whose handshake \<^verbatim>\<open>ws\<close> accepted, so its key header is there
  and is the device identifier; the same reading holds of any request in which neither
  the header nor the address is the empty string. The handler returns the session and
  stores it under its \<open>sessionId\<close>.
\<close>

theorem identity_assignment:
  "fst (on_connection w req now_dev now_sess reg) = new_session w req now_dev now_sess \<and>
   fst (snd (on_connection w req now_dev now_sess reg))
     (sessionId (new_session w req now_dev now_sess)) = Some (new_session w req now_dev now_sess) \<and>
   (handshake_accepted req \<longrightarrow>
      deviceId (new_session w req now_dev now_sess) =
        spec_first_defined (headers req ''sec-websocket-key'') (remoteAddress req)
          (toString now_dev)) \<and>
   (headers req ''sec-websocket-key'' \<noteq> Some [] \<and> remoteAddress req \<noteq> Some [] \<longrightarrow>
      deviceId (new_session w req now_dev now_sess) =
        spec_first_defined (headers req ''sec-websocket-key'') (remoteAddress req)
          (toString now_dev)) \<and>
   sessionId (new_session w req now_dev now_sess) =
     deviceId (new_session w req now_dev now_sess) @ ''-'' @ toString now_sess"
proof -
  have "deviceId (new_session w req now_dev now_sess) =
      spec_first_defined (headers req ''sec-websocket-key'') (remoteAddress req)
        (toString now_dev)"
    if "handshake_accepted req"
    using handshake_accepted_key [OF that]
    by (auto simp: new_session_def or_else_def spec_first_defined_def Let_def)
  moreover have "deviceId (new_session w req now_dev now_sess) =
      spec_first_defined (headers req ''sec-websocket-key'') (remoteAddress req)
        (toString now_dev)"
    if "headers req ''sec-websocket-key'' \<noteq> Some [] \<and> remoteAddress req \<noteq> Some []"
    using that
    by (auto simp: new_session_def or_else_def spec_first_defined_def Let_def
        split: option.splits)
  ultimately show ?thesis
    by (simp add: on_connection_def new_session_fields Let_def)
qed

theorem identity_assignment_witness:
  "handshake_accepted (sample_request keyA) \<and>
   fst (on_connection 0 (sample_request keyA) 1700000000000 1700000000000 Map.empty) =
     sessionA \<and>
   deviceId sessionA = keyA \<and>
   spec_first_defined (headers (sample_request keyA) ''sec-websocket-key'')
     (remoteAddress (sample_request keyA)) (toString 1700000000000) = keyA \<and>
   sessionId sessionA = keyA @ ''-'' @ ''1700000000000'' \<and>
   deviceId (new_session 0 \<lparr>headers = Map.empty, remoteAddress = Some ''203.0.113.9''\<rparr>
     1700000000000 1700000000000) = ''203.0.113.9'' \<and>
   deviceId (new_session 0 \<lparr>headers = Map.empty, remoteAddress = None\<rparr>
     1700000000000 1700000000000) = ''1700000000000''"
proof -
  have n: "new_session 0 (sample_request keyA) 1700000000000 1700000000000 = sessionA"
    by (simp add: sample_defs toString_samples new_session_def or_else_def Let_def)
  from sample_handshakes(1) n
    identity_assignment [of 0 "sample_request keyA" 1700000000000 1700000000000 Map.empty]
    identity_assignment [of 0 "\<lparr>headers = Map.empty, remoteAddress = Some ''203.0.113.9''\<rparr>"
      1700000000000 1700000000000 Map.empty]
    identity_assignment [of 0 "\<lparr>headers = Map.empty, remoteAddress = None\<rparr>"
      1700000000000 1700000000000 Map.empty]
  show ?thesis
    by (simp add: sample_defs toString_samples spec_first_defined_def)
qed

subsection \<open>Fields that are not validated (C10)\<close>

text \<open>
  Claim C10. Session validation checks only the \<^verbatim>\<open>sessionId\<close> field: a chat frame with
  a valid \<^verbatim>\<open>sessionId\<close> and no \<^verbatim>\<open>content\<close> is echoed and \<^verbatim>\<open>undefined\<close> is appended to
  the history, and a subscribe frame with a valid \<^verbatim>\<open>sessionId\<close> and no \<^verbatim>\<open>channel\<close> is
  acknowledged with a \<^verbatim>\<open>subscribed\<close> frame whose \<^verbatim>\<open>channel\<close> is \<^verbatim>\<open>undefined\<close>
  (which \<^verbatim>\<open>JSON.stringify\<close> leaves out).
\<close>

theorem fields_not_validated:
  assumes reach: "run P createWebSocketServer es = (st, tr)"
    and conn: "listeners st w = Some conn"
    and parsed: "P message = Some parsed"
    and sid: "property parsed ''sessionId'' = JStr sid"
    and session: "activeSessions st sid = Some session"
  shows "(property parsed ''type'' = JStr ''chat'' \<and> property parsed ''content'' = JUndefined \<longrightarrow>
            snd (step P st (Frame w message stamp)) =
              [WsSend (ws session) (echo parsed session stamp),
               SaveChatMessage (deviceId conn) JUndefined])
       \<and> (property parsed ''type'' = JStr ''subscribe'' \<and> property parsed ''channel'' = JUndefined \<longrightarrow>
            snd (step P st (Frame w message stamp)) =
              [ConsoleLog ''Client subscribed to undefined'' [],
               WsSend w (JObj [(''type'', JStr ''subscribed''), (''channel'', JUndefined)])])"
proof -
  from reach have inv: "server_inv st" by (rule reachable_inv)
  with session have s: "sid \<noteq> []" by (auto simp: server_inv_def)
  from inv conn have w: "ws conn = w" by (simp add: server_inv_def)
  from sid have g: "get_prop parsed ''sessionId'' = Inr (property parsed ''sessionId'')"
    by (simp add: get_prop_object [of parsed "''sessionId''"])
  from conn parsed sid session s g w show ?thesis
    by (simp add: on_message_def handleSubscription_def)
qed

theorem fields_not_validated_witness:
  "snd (step sample_parse sample_state (Frame 0 bare_chat_text ''2023-11-14T22:13:21.000Z'')) =
     [WsSend 0 (JObj [(''type'', JStr ''chat''), (''sessionId'', JStr sidA),
                      (''timestamp'', JStr ''2023-11-14T22:13:21.000Z'')]),
      SaveChatMessage keyA JUndefined] \<and>
   snd (step sample_parse sample_state
          (Frame 0 bare_subscribe_text ''2023-11-14T22:13:21.000Z'')) =
     [ConsoleLog ''Client subscribed to undefined'' [],
      WsSend 0 (JObj [(''type'', JStr ''subscribed''), (''channel'', JUndefined)])]"
  using
    fields_not_validated [OF sample_reach sample_lookups(1) sample_parses(4)
      sample_properties(5) sample_lookups(3), of "''2023-11-14T22:13:21.000Z''"]
    fields_not_validated [OF sample_reach sample_lookups(1) sample_parses(5)
      sample_properties(8) sample_lookups(3), of "''2023-11-14T22:13:21.000Z''"]
  by (simp only: sample_properties sample_echoes) (simp add: sessionA_def)

end
